theory Spec2Isabelle
  imports Complex_Main
begin

section \<open>Data model of \<^verbatim>\<open>src/App.tsx\<close>\<close>

text \<open>
  The component keeps six pieces of React state and talks to two collaborators: the
  stock API (\<^verbatim>\<open>API.get('stockApi', '/stock', ...)\<close>) and the chart widget. A
  TypeScript \<^verbatim>\<open>number\<close> is modelled as a \<open>real\<close> (the rounding of IEEE doubles
  is not modelled), except for the page counter, which only ever holds 1 or a successor
  and is an \<open>int\<close>. A string is the list of the bytes of its UTF-8 encoding, which for
  ASCII text is the text itself.

  Interface \<^verbatim>\<open>StockData\<close> (lines 20-27). Its fields are the single letters
  \<^verbatim>\<open>t o h l c v\<close>; they carry the prefix \<open>sd_\<close> here, since \<open>o\<close> is HOL's
  function composition and the others would capture every variable of that name.
\<close>

record StockData =
  sd_t :: real
  sd_o :: real
  sd_h :: real
  sd_l :: real
  sd_c :: real
  sd_v :: real

text \<open>
  The object literal handed to \<^verbatim>\<open>candlestickSeries.setData\<close> (lines 89-95):
  \<^verbatim>\<open>{ time, open, high, low, close }\<close>. The prefix \<open>pt_\<close> keeps \<open>open\<close> apart
  from the topological constant of that name.
\<close>

record CandlestickData =
  pt_time :: real
  pt_open :: real
  pt_high :: real
  pt_low :: real
  pt_close :: real

text \<open>The six \<^verbatim>\<open>useState\<close> cells of the component (lines 35-40).\<close>

record ViewState =
  data :: "StockData list"
  loading :: bool
  error :: "string option"
  symbol :: string
  page :: int
  hasMore :: bool

text \<open>
  The value \<^verbatim>\<open>API.get\<close> resolves to, as the code reads it: \<^verbatim>\<open>response.data\<close> and
  \<^verbatim>\<open>response.hasMore\<close>.
\<close>

record Response =
  resp_data :: "StockData list"
  resp_hasMore :: bool

text \<open>
  What the promise of \<^verbatim>\<open>API.get\<close> rejects with, so that the \<^verbatim>\<open>await\<close> of line 54
  throws before any later line has run: the request did not get through, or the service
  answered with a status that is not a success. The \<^verbatim>\<open>catch\<close> branch binds it as
  \<^verbatim>\<open>err\<close> and never looks at it.
\<close>

datatype FetchError = TransportError | BadStatus nat

text \<open>
  A call of \<^verbatim>\<open>fetchData\<close> that is suspended at its \<^verbatim>\<open>await\<close>: the symbol that
  went into the query string (the one of the render whose closure made the call), and
  the two parameters the continuation still needs.
\<close>

record Call =
  call_symbol :: string
  call_pageNum :: int
  call_append :: bool

text \<open>What the component returns for display: the elements of the JSX, in order.\<close>

datatype Element =
  Heading
  | Form string
  | ChartContainer
  | LoadingIndicator
  | LoadMoreButton
  | ErrorMessage string

text \<open>The component with its suspended calls.\<close>

record App =
  view :: ViewState
  inflight :: "Call list"

text \<open>
  What can happen to a mounted component: the three user actions, and the settling of
  the suspended call at a position of the in-flight list, with the result of the
  \<^verbatim>\<open>await\<close> (\<open>Inl\<close> when the promise was rejected, \<open>Inr\<close> the response of the
  expected shape otherwise).
\<close>

datatype Event =
  ChangeSymbol string
  | SubmitForm
  | ClickLoadMore
  | Settle nat "FetchError + Response"

section \<open>Operations\<close>

text \<open>The defaults of the \<^verbatim>\<open>useState\<close> calls.\<close>

definition initialState :: ViewState where
  "initialState =
     \<lparr>data = [], loading = True, error = None, symbol = ''AAPL'', page = 1, hasMore = True\<rparr>"

text \<open>
  \<^verbatim>\<open>String.prototype.toUpperCase\<close> belongs to the JavaScript runtime, not to the
  repository. On a string of ASCII characters (every byte below 128) it is the map below:
  the letters \<open>a\<close> to \<open>z\<close> (codes 97 to 122) move down by 32 and every other character
  stays. On other strings the runtime also maps letters beyond ASCII and can change the
  length; the map below leaves their bytes alone and says nothing about them. What is
  stated for every string takes the runtime's function as a parameter
  (\<open>handleSymbolChange_with\<close>).
\<close>

definition toUpperCase_char :: "char \<Rightarrow> char" where
  "toUpperCase_char ch =
     (if 97 \<le> (of_char ch :: nat) \<and> (of_char ch :: nat) \<le> 122
      then char_of ((of_char ch :: nat) - 32) else ch)"

definition toUpperCase :: "string \<Rightarrow> string" where
  "toUpperCase str = map toUpperCase_char str"

text \<open>
  \<^verbatim>\<open>fetchData(pageNum, append = false)\<close> up to its \<^verbatim>\<open>await\<close> (lines 51-56):
  \<^verbatim>\<open>setLoading(true)\<close>, then the request goes out with the current symbol. The
  optional argument is \<open>None\<close> when the caller leaves it out.
\<close>

definition fetchData_begin :: "ViewState \<Rightarrow> int \<Rightarrow> bool option \<Rightarrow> ViewState \<times> Call" where
  "fetchData_begin s pageNum appendArg =
     (s\<lparr>loading := True\<rparr>,
      \<lparr>call_symbol = symbol s, call_pageNum = pageNum,
       call_append = (case appendArg of None \<Rightarrow> False | Some b \<Rightarrow> b)\<rparr>)"

text \<open>
  \<^verbatim>\<open>fetchData\<close> from the \<^verbatim>\<open>await\<close> on (lines 57-70), run on the state the
  component has when the call settles, for the two results the code is written for.
  \<open>Inr\<close>: the promise resolved with a response of the expected shape; \<^verbatim>\<open>setData\<close>
  with the functional updater appends to the records of that moment. \<open>Inl\<close>: the promise
  was rejected, so the \<^verbatim>\<open>await\<close> threw, no line of the \<^verbatim>\<open>try\<close> block after it
  ran, and the \<^verbatim>\<open>catch\<close> branch starts from the state as it was. A promise that
  resolves with anything else is the subject of \<open>fetchData_settle\<close> below.
\<close>

definition fetchData_resume :: "ViewState \<Rightarrow> Call \<Rightarrow> FetchError + Response \<Rightarrow> ViewState" where
  "fetchData_resume s k result =
     (case result of
        Inr response \<Rightarrow>
          s\<lparr>data := (if call_append k then data s @ resp_data response else resp_data response),
            hasMore := resp_hasMore response,
            page := call_pageNum k,
            loading := False\<rparr>
      | Inl err \<Rightarrow> s\<lparr>error := Some ''Failed to fetch data'', loading := False\<rparr>)"

text \<open>A whole call of \<^verbatim>\<open>fetchData\<close> with nothing happening in between.\<close>

definition fetchData :: "ViewState \<Rightarrow> int \<Rightarrow> bool option \<Rightarrow> FetchError + Response \<Rightarrow> ViewState" where
  "fetchData s pageNum appendArg result =
     (case fetchData_begin s pageNum appendArg of (s', k) \<Rightarrow> fetchData_resume s' k result)"

text \<open>The arrow function of the chart effect (lines 89-95).\<close>

definition toCandlestick :: "StockData \<Rightarrow> CandlestickData" where
  "toCandlestick d =
     \<lparr>pt_time = sd_t d / 1000, pt_open = sd_o d, pt_high = sd_h d, pt_low = sd_l d,
      pt_close = sd_c d\<rparr>"

text \<open>
  The chart effect (lines 79-96): what \<^verbatim>\<open>setData\<close> of the series receives, or
  \<open>None\<close> when the guard \<^verbatim>\<open>chartContainerRef.current && data.length > 0\<close> fails.
\<close>

definition chartEffect :: "bool \<Rightarrow> StockData list \<Rightarrow> CandlestickData list option" where
  "chartEffect container d =
     (if container \<and> length d > 0 then Some (map toCandlestick d) else None)"


definition handleSymbolChange :: "ViewState \<Rightarrow> string \<Rightarrow> ViewState" where
  "handleSymbolChange s v = s\<lparr>symbol := toUpperCase v\<rparr>"

text \<open>
  The effect \<^verbatim>\<open>useEffect(() => { fetchData(1) }, [symbol])\<close> (lines 74-76) after a
  render whose symbol was \<open>old\<close> before: it runs when the dependency changed.
\<close>

definition symbolEffect :: "string \<Rightarrow> ViewState \<Rightarrow> ViewState \<times> Call option" where
  "symbolEffect old s =
     (if symbol s = old then (s, None) else apsnd Some (fetchData_begin s 1 None))"

text \<open>\<^verbatim>\<open>handleSubmit\<close> (lines 118-121).\<close>

definition handleSubmit :: "ViewState \<Rightarrow> ViewState \<times> Call option" where
  "handleSubmit s = apsnd Some (fetchData_begin s 1 None)"

text \<open>\<^verbatim>\<open>loadMore\<close> (lines 126-130).\<close>

definition loadMore :: "ViewState \<Rightarrow> ViewState \<times> Call option" where
  "loadMore s =
     (if hasMore s then apsnd Some (fetchData_begin s (page s + 1) (Some True)) else (s, None))"

text \<open>
  The \<^verbatim>\<open>return\<close> of the component (lines 132-152). \<^verbatim>\<open>if (error)\<close> tests
  truthiness: \<^verbatim>\<open>null\<close> and the empty string are falsy.
\<close>

definition normalView :: "ViewState \<Rightarrow> Element list" where
  "normalView s =
     [Heading, Form (symbol s), ChartContainer]
       @ (if loading s then [LoadingIndicator] else [])
       @ (if hasMore s \<and> \<not> loading s then [LoadMoreButton] else [])"

definition render :: "ViewState \<Rightarrow> Element list" where
  "render s =
     (case error s of
        None \<Rightarrow> normalView s
      | Some m \<Rightarrow> if m \<noteq> [] then [ErrorMessage m] else normalView s)"

text \<open>Mounting: the initial state, and the first run of the symbol effect.\<close>

definition mount :: App where
  "mount =
     (case fetchData_begin initialState 1 None of (s, k) \<Rightarrow> \<lparr>view = s, inflight = [k]\<rparr>)"

text \<open>A handler's new state and the call it started, put into the component.\<close>

definition issue :: "App \<Rightarrow> ViewState \<times> Call option \<Rightarrow> App" where
  "issue a r =
     a\<lparr>view := fst r,
       inflight := inflight a @ (case snd r of None \<Rightarrow> [] | Some k \<Rightarrow> [k])\<rparr>"

text \<open>
  One event. A user action reaches its handler only through an element that is on
  display; a call settles whatever is displayed. An event that cannot happen leaves the
  component as it is.
\<close>

definition step :: "App \<Rightarrow> Event \<Rightarrow> App" where
  "step a ev =
     (case ev of
        ChangeSymbol v \<Rightarrow>
          if Form (symbol (view a)) \<in> set (render (view a))
          then issue a (symbolEffect (symbol (view a)) (handleSymbolChange (view a) v))
          else a
      | SubmitForm \<Rightarrow>
          if Form (symbol (view a)) \<in> set (render (view a))
          then issue a (handleSubmit (view a))
          else a
      | ClickLoadMore \<Rightarrow>
          if LoadMoreButton \<in> set (render (view a))
          then issue a (loadMore (view a))
          else a
      | Settle i result \<Rightarrow>
          if i < length (inflight a)
          then a\<lparr>view := fetchData_resume (view a) (inflight a ! i) result,
                 inflight := take i (inflight a) @ drop (Suc i) (inflight a)\<rparr>
          else a)"

text \<open>A sequence of events, from the left.\<close>

fun run :: "App \<Rightarrow> Event list \<Rightarrow> App" where
  "run a [] = a"
| "run a (ev # evs) = run (step a ev) evs"

subsection \<open>Responses of another shape\<close>

text \<open>
  \<^verbatim>\<open>API.get\<close> is typed \<^verbatim>\<open>Promise<any>\<close> and the code validates nothing, so the
  promise can resolve with a value that is not a \<open>Response\<close>. The code reads two
  properties of it. \<open>Nullish\<close> is \<^verbatim>\<open>null\<close> or \<^verbatim>\<open>undefined\<close>: reading a property
  of it throws a \<^verbatim>\<open>TypeError\<close>. \<open>Object d h\<close> is any other value, by what its
  properties \<^verbatim>\<open>data\<close> and \<^verbatim>\<open>hasMore\<close> hold, \<open>None\<close> for \<^verbatim>\<open>undefined\<close>: the
  object \<^verbatim>\<open>{}\<close> and a string are \<open>Object None None\<close>, and a response of the expected
  shape is \<open>Object (Some d) (Some h)\<close>. A \<^verbatim>\<open>data\<close> that is defined and not an array of
  bars, and a \<^verbatim>\<open>hasMore\<close> that is defined and not a boolean, are not modelled.
\<close>

datatype Payload = Nullish | Object "StockData list option" "bool option"

datatype Awaited = Rejected FetchError | Resolved Payload

text \<open>
  The calls of the state setters that \<^verbatim>\<open>fetchData\<close> makes after its \<^verbatim>\<open>await\<close>.
  \<open>SetData\<close> is \<^verbatim>\<open>setData(response.data)\<close> of line 61, with the value that was read;
  \<open>SetDataUpdater\<close> is \<^verbatim>\<open>setData(prevData => [...prevData, ...response.data])\<close> of
  line 59, which reads nothing when it is called: the function keeps the response and
  reads it when React runs it.
\<close>

datatype SetState =
  SetData "StockData list option"
  | SetDataUpdater Payload
  | SetHasMore "bool option"
  | SetPage int
  | SetLoading bool
  | SetError string

text \<open>
  The \<^verbatim>\<open>try\<close> block after the \<^verbatim>\<open>await\<close> (lines 58-66) on a value the promise
  resolved with: the setter calls it makes, in order, and whether it reached its end
  (\<open>False\<close>: it threw). On \<^verbatim>\<open>null\<close>, line 61 throws when it reads
  \<^verbatim>\<open>response.data\<close>, before any call; line 59 reads nothing and makes its call, and
  line 64 throws when it reads \<^verbatim>\<open>response.hasMore\<close>. On any other value no line
  throws.
\<close>

definition fetchData_try :: "Call \<Rightarrow> Payload \<Rightarrow> SetState list \<times> bool" where
  "fetchData_try k response =
     (case response of
        Nullish \<Rightarrow> (if call_append k then [SetDataUpdater Nullish] else [], False)
      | Object d h \<Rightarrow>
          ([if call_append k then SetDataUpdater (Object d h) else SetData d,
            SetHasMore h, SetPage (call_pageNum k), SetLoading False], True))"

text \<open>
  All of \<^verbatim>\<open>fetchData\<close> after the \<^verbatim>\<open>await\<close> (lines 57-70): the \<^verbatim>\<open>catch\<close> branch
  runs when the \<^verbatim>\<open>await\<close> threw or the \<^verbatim>\<open>try\<close> block did, after the calls
  already made.
\<close>

definition fetchData_calls :: "Call \<Rightarrow> Awaited \<Rightarrow> SetState list" where
  "fetchData_calls k awaited =
     (case awaited of
        Rejected err \<Rightarrow> [SetError ''Failed to fetch data'', SetLoading False]
      | Resolved response \<Rightarrow>
          (if snd (fetchData_try k response) then fst (fetchData_try k response)
           else fst (fetchData_try k response)
                  @ [SetError ''Failed to fetch data'', SetLoading False]))"

text \<open>
  A setter call after the \<^verbatim>\<open>await\<close> only queues its change: React applies the
  queued changes together when it renders next, and runs the updater functions then.
  What becomes of the component at that render. \<open>Shown s\<close>: it goes on with
  the cells \<open>s\<close>. \<open>DataUndefined s\<close>: it goes on, the \<^verbatim>\<open>data\<close> cell holds
  \<^verbatim>\<open>undefined\<close> and the other five cells are those of \<open>s\<close>. \<open>Crashed\<close>: an
  exception reached React from the render or from an effect; the component has no error
  boundary, so React removes it and nothing is displayed any more.
\<close>

datatype Outcome = Shown ViewState | DataUndefined ViewState | Crashed

definition onCells :: "(ViewState \<Rightarrow> ViewState) \<Rightarrow> Outcome \<Rightarrow> Outcome" where
  "onCells f out =
     (case out of
        Shown s \<Rightarrow> Shown (f s)
      | DataUndefined s \<Rightarrow> DataUndefined (f s)
      | Crashed \<Rightarrow> Crashed)"

text \<open>
  One queued setter call, applied by the render. The updater of line 59 spreads the
  previous records and \<^verbatim>\<open>response.data\<close> into a new array: it throws when the
  response is \<^verbatim>\<open>null\<close> (the property cannot be read) and when either of the two is
  \<^verbatim>\<open>undefined\<close> (it cannot be spread). \<^verbatim>\<open>hasMore\<close> is only ever tested for
  truthiness (lines 127 and 148), so a cell that holds \<^verbatim>\<open>undefined\<close> counts as
  \<open>False\<close>.
\<close>

fun applyCall :: "SetState \<Rightarrow> Outcome \<Rightarrow> Outcome" where
  "applyCall (SetData v) out =
     (case out of
        Crashed \<Rightarrow> Crashed
      | Shown s \<Rightarrow> (case v of None \<Rightarrow> DataUndefined s | Some d \<Rightarrow> Shown (s\<lparr>data := d\<rparr>))
      | DataUndefined s \<Rightarrow>
          (case v of None \<Rightarrow> DataUndefined s | Some d \<Rightarrow> Shown (s\<lparr>data := d\<rparr>)))"
| "applyCall (SetDataUpdater response) out =
     (case out of
        Shown s \<Rightarrow>
          (case response of
             Object (Some d) h \<Rightarrow> Shown (s\<lparr>data := data s @ d\<rparr>)
           | Object None h \<Rightarrow> Crashed
           | Nullish \<Rightarrow> Crashed)
      | DataUndefined s \<Rightarrow> Crashed
      | Crashed \<Rightarrow> Crashed)"
| "applyCall (SetHasMore h) out =
     onCells (\<lambda>s. s\<lparr>hasMore := (case h of None \<Rightarrow> False | Some b \<Rightarrow> b)\<rparr>) out"
| "applyCall (SetPage n) out = onCells (\<lambda>s. s\<lparr>page := n\<rparr>) out"
| "applyCall (SetLoading b) out = onCells (\<lambda>s. s\<lparr>loading := b\<rparr>) out"
| "applyCall (SetError m) out = onCells (\<lambda>s. s\<lparr>error := Some m\<rparr>) out"

text \<open>
  The chart effect after that render (line 80): with the chart container on display,
  \<^verbatim>\<open>data.length\<close> is read, which throws when \<^verbatim>\<open>data\<close> is \<^verbatim>\<open>undefined\<close>. With
  the error message on display the container's ref is \<^verbatim>\<open>null\<close> and
  \<^verbatim>\<open>data\<close> is not read.
\<close>

definition afterChartEffect :: "Outcome \<Rightarrow> Outcome" where
  "afterChartEffect out =
     (case out of
        Shown s \<Rightarrow> Shown s
      | DataUndefined s \<Rightarrow>
          if ChartContainer \<in> set (render s) then Crashed else DataUndefined s
      | Crashed \<Rightarrow> Crashed)"

text \<open>
  A suspended call settles, with whatever the \<^verbatim>\<open>await\<close> gives, on a component whose
  cells are \<open>s\<close>: the setter calls are made, the render applies them, the chart effect
  runs.
\<close>

definition fetchData_settle :: "ViewState \<Rightarrow> Call \<Rightarrow> Awaited \<Rightarrow> Outcome" where
  "fetchData_settle s k awaited =
     afterChartEffect (fold applyCall (fetchData_calls k awaited) (Shown s))"

subsection \<open>Sample data\<close>

text \<open>A bar for the worked examples: second \<open>x\<close> of the epoch, in milliseconds.\<close>

definition exampleBar :: "real \<Rightarrow> StockData" where
  "exampleBar x = \<lparr>sd_t = x * 1000, sd_o = 10, sd_h = 12, sd_l = 9, sd_c = 11, sd_v = 500\<rparr>"

section \<open>Basic facts\<close>

lemma fetchData_resume_Inr:
  "fetchData_resume s k (Inr r) =
     s\<lparr>data := (if call_append k then data s @ resp_data r else resp_data r),
       hasMore := resp_hasMore r, page := call_pageNum k, loading := False\<rparr>"
  by (simp add: fetchData_resume_def)

lemma fetchData_resume_Inl:
  "fetchData_resume s k (Inl e) = s\<lparr>error := Some ''Failed to fetch data'', loading := False\<rparr>"
  by (simp add: fetchData_resume_def)

lemma loadMore_eq:
  "loadMore s =
     (if hasMore s
      then (s\<lparr>loading := True\<rparr>,
            Some \<lparr>call_symbol = symbol s, call_pageNum = page s + 1, call_append = True\<rparr>)
      else (s, None))"
  by (simp add: loadMore_def fetchData_begin_def)

lemma handleSubmit_eq:
  "handleSubmit s =
     (s\<lparr>loading := True\<rparr>,
      Some \<lparr>call_symbol = symbol s, call_pageNum = 1, call_append = False\<rparr>)"
  by (simp add: handleSubmit_def fetchData_begin_def)

lemma symbolEffect_eq:
  "symbolEffect old s =
     (if symbol s = old then (s, None)
      else (s\<lparr>loading := True\<rparr>,
            Some \<lparr>call_symbol = symbol s, call_pageNum = 1, call_append = False\<rparr>))"
  by (simp add: symbolEffect_def fetchData_begin_def)

lemma render_Form:
  "Form v \<in> set (render s) \<longleftrightarrow> v = symbol s \<and> (error s = None \<or> error s = Some [])"
  by (auto simp add: render_def normalView_def split: option.splits)

lemma render_LoadMoreButton:
  "LoadMoreButton \<in> set (render s) \<longleftrightarrow>
     hasMore s \<and> \<not> loading s \<and> (error s = None \<or> error s = Some [])"
  by (auto simp add: render_def normalView_def split: option.splits)


lemma step_ChangeSymbol:
  "step a (ChangeSymbol v) =
     (if error (view a) = None \<or> error (view a) = Some []
      then issue a (symbolEffect (symbol (view a)) (handleSymbolChange (view a) v))
      else a)"
  by (simp add: step_def render_Form)

lemma step_SubmitForm:
  "step a SubmitForm =
     (if error (view a) = None \<or> error (view a) = Some []
      then issue a (handleSubmit (view a)) else a)"
  by (simp add: step_def render_Form)

lemma step_ClickLoadMore:
  "step a ClickLoadMore =
     (if hasMore (view a) \<and> \<not> loading (view a) \<and>
         (error (view a) = None \<or> error (view a) = Some [])
      then issue a (loadMore (view a)) else a)"
  by (simp add: step_def render_LoadMoreButton)

lemma step_Settle:
  "step a (Settle i res) =
     (if i < length (inflight a)
      then a\<lparr>view := fetchData_resume (view a) (inflight a ! i) res,
             inflight := take i (inflight a) @ drop (Suc i) (inflight a)\<rparr>
      else a)"
  by (simp add: step_def)

lemmas step_event = step_ChangeSymbol step_SubmitForm step_ClickLoadMore step_Settle


subsection \<open>The error cell\<close>





lemma mount_eq:
  "mount = \<lparr>view = initialState,
            inflight = [\<lparr>call_symbol = ''AAPL'', call_pageNum = 1, call_append = False\<rparr>]\<rparr>"
  by (simp add: mount_def fetchData_begin_def initialState_def)

subsection \<open>The page counter\<close>

lemma step_page:
  assumes "1 \<le> page (view a)" and "\<forall>k \<in> set (inflight a). 1 \<le> call_pageNum k"
  shows "1 \<le> page (view (step a ev)) \<and> (\<forall>k \<in> set (inflight (step a ev)). 1 \<le> call_pageNum k)"
proof (cases ev)
  case (ChangeSymbol v)
  with assms show ?thesis
    by (auto simp add: step_event issue_def symbolEffect_eq handleSymbolChange_def)
next
  case SubmitForm
  with assms show ?thesis by (auto simp add: step_event issue_def handleSubmit_eq)
next
  case ClickLoadMore
  with assms show ?thesis by (auto simp add: step_event issue_def loadMore_eq)
next
  case (Settle i res)
  show ?thesis
  proof (cases "i < length (inflight a)")
    case True
    then have "1 \<le> call_pageNum (inflight a ! i)" using assms(2) by simp
    with True Settle assms show ?thesis
      by (auto simp add: step_event fetchData_resume_def split: sum.splits
          dest: in_set_takeD in_set_dropD)
  next
    case False
    with Settle assms show ?thesis by (simp add: step_event)
  qed
qed

lemma run_page:
  "1 \<le> page (view a) \<Longrightarrow> \<forall>k \<in> set (inflight a). 1 \<le> call_pageNum k \<Longrightarrow>
   1 \<le> page (view (run a evs)) \<and> (\<forall>k \<in> set (inflight (run a evs)). 1 \<le> call_pageNum k)"
proof (induction evs arbitrary: a)
  case Nil
  then show ?case by simp
next
  case (Cons ev evs)
  from step_page [OF Cons.prems, of ev] Cons.IH [of "step a ev"] show ?case by simp
qed

subsection \<open>The symbol\<close>




subsection \<open>Responses of another shape\<close>

text \<open>
  On the two results \<open>fetchData_resume\<close> is written for, a rejected promise and a
  response of the expected shape, \<open>fetchData_settle\<close> gives the state it gives.
\<close>

lemma fetchData_settle_Rejected:
  "fetchData_settle s k (Rejected e) = Shown (fetchData_resume s k (Inl e))"
  by (simp add: fetchData_settle_def fetchData_calls_def fetchData_resume_def onCells_def
      afterChartEffect_def)

lemma fetchData_settle_Response:
  "fetchData_settle s k (Resolved (Object (Some (resp_data r)) (Some (resp_hasMore r)))) =
     Shown (fetchData_resume s k (Inr r))"
  by (simp add: fetchData_settle_def fetchData_calls_def fetchData_try_def fetchData_resume_def
      onCells_def afterChartEffect_def)

lemma fetchData_settle_records_replace:
  "fetchData_settle s \<lparr>call_symbol = y, call_pageNum = n, call_append = False\<rparr>
     (Resolved (Object (Some ds) h)) =
     Shown (s\<lparr>data := ds, hasMore := (case h of None \<Rightarrow> False | Some x \<Rightarrow> x), page := n,
              loading := False\<rparr>)"
  by (simp add: fetchData_settle_def fetchData_calls_def fetchData_try_def onCells_def
      afterChartEffect_def)

lemma fetchData_settle_Nullish_replace:
  "fetchData_settle s \<lparr>call_symbol = y, call_pageNum = n, call_append = False\<rparr> (Resolved Nullish) =
     Shown (s\<lparr>error := Some ''Failed to fetch data'', loading := False\<rparr>)"
  by (simp add: fetchData_settle_def fetchData_calls_def fetchData_try_def onCells_def
      afterChartEffect_def)

lemma fetchData_settle_Nullish_append:
  "fetchData_settle s \<lparr>call_symbol = y, call_pageNum = n, call_append = True\<rparr> (Resolved Nullish) =
     Crashed"
  by (simp add: fetchData_settle_def fetchData_calls_def fetchData_try_def onCells_def
      afterChartEffect_def)

lemma fetchData_calls_Object:
  "fetchData_calls k (Resolved (Object d h)) =
     [if call_append k then SetDataUpdater (Object d h) else SetData d,
      SetHasMore h, SetPage (call_pageNum k), SetLoading False]"
  by (simp add: fetchData_calls_def fetchData_try_def)

section \<open>Claims\<close>

text \<open>
  C1, as the specification states it, fails: \<^verbatim>\<open>loadMore\<close> tests \<^verbatim>\<open>hasMore\<close> only.
  In the state of the first render \<^verbatim>\<open>loading\<close> is true, and a call of
  \<^verbatim>\<open>loadMore\<close> still starts the fetch of page 2 with \<^verbatim>\<open>append = true\<close>.
\<close>

theorem loadMore_ignores_loading:
  "loading initialState \<and>
   loadMore initialState =
     (initialState, Some \<lparr>call_symbol = ''AAPL'', call_pageNum = 2, call_append = True\<rparr>)"
  by (simp add: loadMore_eq initialState_def)

text \<open>
  C1, amended: \<^verbatim>\<open>loadMore\<close> does nothing when \<^verbatim>\<open>hasMore\<close> is false; otherwise,
  whatever \<^verbatim>\<open>loading\<close> is, it sets \<^verbatim>\<open>loading\<close> and starts exactly one fetch, of
  \<^verbatim>\<open>page + 1\<close> with \<^verbatim>\<open>append = true\<close>. The test of \<^verbatim>\<open>loading\<close> is in the
  render: the Load More button is on display exactly when \<^verbatim>\<open>hasMore && !loading\<close> and
  no error is shown, so a click starts that fetch in such a state and does nothing in
  any other.
\<close>

theorem loadMore_guard:
  "loadMore s =
     (if hasMore s
      then (s\<lparr>loading := True\<rparr>,
            Some \<lparr>call_symbol = symbol s, call_pageNum = page s + 1, call_append = True\<rparr>)
      else (s, None)) \<and>
   (LoadMoreButton \<in> set (render s) \<longleftrightarrow>
      hasMore s \<and> \<not> loading s \<and> (error s = None \<or> error s = Some [])) \<and>
   step a ClickLoadMore =
     (if hasMore (view a) \<and> \<not> loading (view a) \<and>
         (error (view a) = None \<or> error (view a) = Some [])
      then a\<lparr>view := (view a)\<lparr>loading := True\<rparr>,
             inflight := inflight a @
               [\<lparr>call_symbol = symbol (view a), call_pageNum = page (view a) + 1,
                 call_append = True\<rparr>]\<rparr>
      else a)"
proof -
  have "step a ClickLoadMore =
     (if hasMore (view a) \<and> \<not> loading (view a) \<and>
         (error (view a) = None \<or> error (view a) = Some [])
      then a\<lparr>view := (view a)\<lparr>loading := True\<rparr>,
             inflight := inflight a @
               [\<lparr>call_symbol = symbol (view a), call_pageNum = page (view a) + 1,
                 call_append = True\<rparr>]\<rparr>
      else a)"
    by (simp add: step_ClickLoadMore issue_def loadMore_eq)
  then show ?thesis
    using loadMore_eq [of s] render_LoadMoreButton [of s] by simp
qed

text \<open>
  C2: the call that \<^verbatim>\<open>loadMore\<close> starts, when it settles with a response, leaves
  the records that were there, in their order, followed by the records of the response,
  in theirs. This holds for the records of the moment the call settles (\<open>s'\<close>), and so
  for the records of the moment it was started when nothing happened in between.
\<close>

theorem loadMore_appends_in_order:
  assumes "hasMore s"
  shows "(\<exists>k. snd (loadMore s) = Some k \<and>
            data (fetchData_resume s' k (Inr r)) = data s' @ resp_data r) \<and>
         data (fetchData s (page s + 1) (Some True) (Inr r)) = data s @ resp_data r"
  using assms by (simp add: loadMore_eq fetchData_def fetchData_begin_def fetchData_resume_Inr)

text \<open>
  C2 at one record on display and a response of two: the three records, old one first.
\<close>

theorem loadMore_appends_in_order_witness:
  "hasMore (initialState\<lparr>data := [exampleBar 1], loading := False\<rparr>) \<and>
   snd (loadMore (initialState\<lparr>data := [exampleBar 1], loading := False\<rparr>)) =
     Some \<lparr>call_symbol = ''AAPL'', call_pageNum = 2, call_append = True\<rparr> \<and>
   data (fetchData (initialState\<lparr>data := [exampleBar 1], loading := False\<rparr>) 2 (Some True)
           (Inr \<lparr>resp_data = [exampleBar 2, exampleBar 3], resp_hasMore = False\<rparr>)) =
     [exampleBar 1, exampleBar 2, exampleBar 3]"
proof -
  have more: "hasMore (initialState\<lparr>data := [exampleBar 1], loading := False\<rparr>)"
    by (simp add: initialState_def)
  from loadMore_appends_in_order [OF more,
      of "initialState\<lparr>data := [exampleBar 1], loading := False\<rparr>"
         "\<lparr>resp_data = [exampleBar 2, exampleBar 3], resp_hasMore = False\<rparr>"]
  show ?thesis
    by (simp add: initialState_def loadMore_eq)
qed

text \<open>
  C3: after a fetch that succeeded, for any page and either value of \<^verbatim>\<open>append\<close>,
  \<^verbatim>\<open>loading\<close> is false, \<^verbatim>\<open>page\<close> is the page number that was requested and
  \<^verbatim>\<open>hasMore\<close> is the flag of the response.
\<close>

theorem successful_fetch_state:
  "loading (fetchData_resume s k (Inr r)) = False \<and>
   page (fetchData_resume s k (Inr r)) = call_pageNum k \<and>
   hasMore (fetchData_resume s k (Inr r)) = resp_hasMore r \<and>
   loading (fetchData s n b (Inr r)) = False \<and>
   page (fetchData s n b (Inr r)) = n \<and>
   hasMore (fetchData s n b (Inr r)) = resp_hasMore r"
  by (simp add: fetchData_def fetchData_begin_def fetchData_resume_Inr)

text \<open>
  C4, as the specification states it, fails: a malformed payload is not a failed fetch.
  The first fetch resolves with \<^verbatim>\<open>{}\<close>: no line of the \<^verbatim>\<open>try\<close> block throws,
  \<^verbatim>\<open>setError\<close> is not called, \<^verbatim>\<open>data\<close> becomes \<^verbatim>\<open>undefined\<close> and the chart
  effect throws on it. It resolves with \<^verbatim>\<open>{ data: [bar] }\<close>, without
  \<^verbatim>\<open>hasMore\<close>: the bar is displayed and \<^verbatim>\<open>error\<close> stays \<^verbatim>\<open>null\<close>.
\<close>

theorem malformed_payload_sets_no_error:
  "fetchData_calls \<lparr>call_symbol = ''AAPL'', call_pageNum = 1, call_append = False\<rparr>
     (Resolved (Object None None)) =
     [SetData None, SetHasMore None, SetPage 1, SetLoading False] \<and>
   fetchData_settle initialState
     \<lparr>call_symbol = ''AAPL'', call_pageNum = 1, call_append = False\<rparr>
     (Resolved (Object None None)) = Crashed \<and>
   fetchData_settle initialState
     \<lparr>call_symbol = ''AAPL'', call_pageNum = 1, call_append = False\<rparr>
     (Resolved (Object (Some [exampleBar 1]) None)) =
     Shown \<lparr>data = [exampleBar 1], loading = False, error = None, symbol = ''AAPL'',
            page = 1, hasMore = False\<rparr>"
  by (simp add: fetchData_calls_Object fetchData_settle_def onCells_def afterChartEffect_def
      render_def normalView_def initialState_def)

text \<open>
  C4, amended: after a fetch whose \<^verbatim>\<open>await\<close> was rejected, whatever the cause
  (no connection, a status that is not a success), \<^verbatim>\<open>error\<close> is the string
  \<^verbatim>\<open>Failed to fetch data\<close> and \<^verbatim>\<open>loading\<close> is false; two different causes leave
  the same state, and settling the failed call starts no other call: it only leaves the
  list of calls in flight. A payload is not validated. A replace fetch that resolves
  with \<^verbatim>\<open>null\<close> throws inside the \<^verbatim>\<open>try\<close> block and ends in that same state; a
  value of any other shape makes nothing throw, and \<^verbatim>\<open>setError\<close> is not called:
  a replace fetch that resolves with records, with or without \<^verbatim>\<open>hasMore\<close>, stores
  them and leaves \<^verbatim>\<open>error\<close> as it was.
\<close>

theorem failed_fetch_sets_error:
  "error (fetchData_resume s k (Inl e)) = Some ''Failed to fetch data'' \<and>
   loading (fetchData_resume s k (Inl e)) = False \<and>
   error (fetchData s n b (Inl e)) = Some ''Failed to fetch data'' \<and>
   loading (fetchData s n b (Inl e)) = False \<and>
   fetchData_resume s k (Inl e) = fetchData_resume s k (Inl e') \<and>
   inflight (step a (Settle i (Inl e))) =
     (if i < length (inflight a) then take i (inflight a) @ drop (Suc i) (inflight a)
      else inflight a) \<and>
   fetchData_settle s k (Rejected e) =
     Shown (s\<lparr>error := Some ''Failed to fetch data'', loading := False\<rparr>) \<and>
   fetchData_settle s \<lparr>call_symbol = y, call_pageNum = n, call_append = False\<rparr>
     (Resolved Nullish) =
     Shown (s\<lparr>error := Some ''Failed to fetch data'', loading := False\<rparr>) \<and>
   SetError m \<notin> set (fetchData_calls k (Resolved (Object d h))) \<and>
   fetchData_settle s \<lparr>call_symbol = y, call_pageNum = n, call_append = False\<rparr>
     (Resolved (Object (Some ds) h)) =
     Shown (s\<lparr>data := ds, hasMore := (case h of None \<Rightarrow> False | Some x \<Rightarrow> x), page := n,
              loading := False\<rparr>)"
  by (simp add: fetchData_def fetchData_begin_def fetchData_resume_Inl step_Settle
      fetchData_settle_Rejected fetchData_settle_Nullish_replace fetchData_calls_Object
      fetchData_settle_records_replace)

text \<open>
  C5: whatever the symbol is, \<^verbatim>\<open>handleSubmit\<close> starts exactly one fetch, of page 1
  with \<^verbatim>\<open>append = false\<close>, and when that call settles with a response the records
  are those of the response and no others, whatever the records were then.
\<close>

theorem submit_fetches_first_page:
  "handleSubmit s =
     (s\<lparr>loading := True\<rparr>,
      Some \<lparr>call_symbol = symbol s, call_pageNum = 1, call_append = False\<rparr>) \<and>
   data (fetchData_resume s'
           \<lparr>call_symbol = symbol s, call_pageNum = 1, call_append = False\<rparr> (Inr r)) =
     resp_data r \<and>
   data (fetchData s 1 None (Inr r)) = resp_data r \<and>
   step a SubmitForm =
     (if error (view a) = None \<or> error (view a) = Some []
      then a\<lparr>view := (view a)\<lparr>loading := True\<rparr>,
             inflight := inflight a @
               [\<lparr>call_symbol = symbol (view a), call_pageNum = 1, call_append = False\<rparr>]\<rparr>
      else a)"
  by (simp add: handleSubmit_eq fetchData_def fetchData_begin_def fetchData_resume_Inr
      step_SubmitForm issue_def)



text \<open>
  C7: the chart transform maps a record to \<^verbatim>\<open>time = t / 1000\<close> with the four prices
  as they are; the volume has no influence on the point; the record with
  \<^verbatim>\<open>t = 1700000000000\<close> has \<^verbatim>\<open>time = 1700000000\<close>; and the series receives the
  transform of every record, in order.
\<close>

theorem chart_transform:
  "toCandlestick d =
     \<lparr>pt_time = sd_t d / 1000, pt_open = sd_o d, pt_high = sd_h d, pt_low = sd_l d,
      pt_close = sd_c d\<rparr> \<and>
   toCandlestick (d\<lparr>sd_v := x\<rparr>) = toCandlestick d \<and>
   pt_time (toCandlestick (d\<lparr>sd_t := 1700000000000\<rparr>)) = 1700000000 \<and>
   chartEffect True (d # ds) = Some (map toCandlestick (d # ds))"
  by (simp add: toCandlestick_def chartEffect_def)



text \<open>
  C9, as stated, fails on one path. A Load More fetch resolves with \<^verbatim>\<open>null\<close>: line
  59 has queued its updater when line 64 throws, the \<^verbatim>\<open>catch\<close> branch runs, and at
  the next render the updater throws on \<^verbatim>\<open>response.data\<close>. The component is
  removed; its cells are not kept.
\<close>

theorem null_on_load_more_crashes:
  "snd (loadMore (initialState\<lparr>data := [exampleBar 1], loading := False\<rparr>)) =
     Some \<lparr>call_symbol = ''AAPL'', call_pageNum = 2, call_append = True\<rparr> \<and>
   fetchData_calls \<lparr>call_symbol = ''AAPL'', call_pageNum = 2, call_append = True\<rparr>
     (Resolved Nullish) =
     [SetDataUpdater Nullish, SetError ''Failed to fetch data'', SetLoading False] \<and>
   fetchData_settle (initialState\<lparr>data := [exampleBar 1], loading := True\<rparr>)
     \<lparr>call_symbol = ''AAPL'', call_pageNum = 2, call_append = True\<rparr> (Resolved Nullish) =
     Crashed"
  by (simp add: loadMore_eq initialState_def fetchData_calls_def fetchData_try_def
      fetchData_settle_Nullish_append)

text \<open>
  C9, amended: a fetch that fails because its \<^verbatim>\<open>await\<close> was rejected, for any page
  and either value of \<^verbatim>\<open>append\<close>, leaves \<^verbatim>\<open>data\<close>, \<^verbatim>\<open>page\<close>,
  \<^verbatim>\<open>hasMore\<close> and \<^verbatim>\<open>symbol\<close> as they were and changes \<^verbatim>\<open>error\<close> and
  \<^verbatim>\<open>loading\<close> only; so does a replace fetch that fails because it resolved with
  \<^verbatim>\<open>null\<close>.
\<close>

theorem failed_fetch_frame:
  "data (fetchData_resume s k (Inl e)) = data s \<and>
   page (fetchData_resume s k (Inl e)) = page s \<and>
   hasMore (fetchData_resume s k (Inl e)) = hasMore s \<and>
   symbol (fetchData_resume s k (Inl e)) = symbol s \<and>
   fetchData s n b (Inl e) = s\<lparr>error := Some ''Failed to fetch data'', loading := False\<rparr> \<and>
   view (step a (Settle i (Inl e))) =
     (if i < length (inflight a)
      then (view a)\<lparr>error := Some ''Failed to fetch data'', loading := False\<rparr>
      else view a) \<and>
   fetchData_settle s k (Rejected e) =
     Shown (s\<lparr>error := Some ''Failed to fetch data'', loading := False\<rparr>) \<and>
   fetchData_settle s \<lparr>call_symbol = y, call_pageNum = n, call_append = False\<rparr>
     (Resolved Nullish) =
     Shown (s\<lparr>error := Some ''Failed to fetch data'', loading := False\<rparr>)"
  by (simp add: fetchData_def fetchData_begin_def fetchData_resume_Inl step_Settle
      fetchData_settle_Rejected fetchData_settle_Nullish_replace)

text \<open>
  C10: \<^verbatim>\<open>page\<close> starts at 1 and is at least 1 after every sequence of events of a
  mounted component, as is the page number of every call in flight. A submit and the
  symbol effect request page 1, \<^verbatim>\<open>loadMore\<close> requests \<^verbatim>\<open>page + 1\<close>, a call that
  succeeded sets \<^verbatim>\<open>page\<close> to the page it requested, and nothing else changes it.
\<close>

theorem page_positive:
  "page initialState = 1 \<and>
   1 \<le> page (view (run mount evs)) \<and>
   list_all (\<lambda>k. 1 \<le> call_pageNum k) (inflight (run mount evs)) \<and>
   map_option call_pageNum (snd (handleSubmit s)) = Some 1 \<and>
   map_option call_pageNum (snd (symbolEffect old s)) =
     (if symbol s = old then None else Some 1) \<and>
   map_option call_pageNum (snd (loadMore s)) = (if hasMore s then Some (page s + 1) else None) \<and>
   page (fetchData_resume s k (Inr r)) = call_pageNum k \<and>
   page (fetchData_resume s k (Inl e)) = page s \<and>
   page (handleSymbolChange s v) = page s"
proof -
  have "1 \<le> page (view (run mount evs)) \<and>
        (\<forall>k \<in> set (inflight (run mount evs)). 1 \<le> call_pageNum k)"
    by (rule run_page) (simp_all add: mount_eq initialState_def)
  then show ?thesis
    by (simp add: list_all_iff initialState_def handleSubmit_eq symbolEffect_eq loadMore_eq
        fetchData_resume_Inr fetchData_resume_Inl handleSymbolChange_def)
qed

text \<open>
  C10 on a run: the first page arrives, the user clicks Load More, the second page
  arrives; \<^verbatim>\<open>page\<close> is 2.
\<close>

theorem page_positive_witness:
  "page (view (run mount
      [Settle 0 (Inr \<lparr>resp_data = [exampleBar 1], resp_hasMore = True\<rparr>), ClickLoadMore,
       Settle 0 (Inr \<lparr>resp_data = [exampleBar 2], resp_hasMore = True\<rparr>)])) = 2 \<and>
   1 \<le> page (view (run mount
      [Settle 0 (Inr \<lparr>resp_data = [exampleBar 1], resp_hasMore = True\<rparr>), ClickLoadMore,
       Settle 0 (Inr \<lparr>resp_data = [exampleBar 2], resp_hasMore = True\<rparr>)]))"
  using page_positive
    [of "[Settle 0 (Inr \<lparr>resp_data = [exampleBar 1], resp_hasMore = True\<rparr>), ClickLoadMore,
          Settle 0 (Inr \<lparr>resp_data = [exampleBar 2], resp_hasMore = True\<rparr>)]"]
  by (simp add: mount_eq step_event issue_def loadMore_eq initialState_def
      fetchData_resume_Inr)

end
